theory Spec2Isabelle
  imports Complex_Main
begin

section \<open>Data model\<close>

text \<open>
  A Python \<open>str\<close> is a sequence of Unicode code points; the review texts and the search
  box hold Arabic as well as Latin script, so a string of the program is a list of code
  points. The fixed vocabulary of the program (\<open>'Arabic'\<close>, \<open>'Positive'\<close>, \<open>"All"\<close>, ...)
  is ASCII and is written with HOL string literals.
\<close>

type_synonym pystr = "nat list"

text \<open>The exceptions that the modelled statements can raise.\<close>

datatype error = ReError | ValueError | ZeroDivisionError

text \<open>
  A row of the CSV file: \<open>review_content\<close> is a string or missing (NaN), \<open>label\<close> is the
  integer sentiment code. The column \<open>review_content\<close> is taken to be of object dtype, which
  is what \<open>read_csv\<close> gives as soon as one cell holds text.
\<close>

record review =
  review_content :: "pystr option"
  label :: int

text \<open>
  A row of the data frame that \<open>load_data\<close> returns: the three derived columns are added.
  The column \<open>length\<close> of the source is \<open>length_col\<close> here.
\<close>

record enriched = review +
  language :: string
  length_col :: "nat option"
  sentiment_label :: "string option"

section \<open>Loading and enrichment (\<open>load_data\<close>)\<close>

text \<open>
  \<open>detect_language\<close>: \<open>pd.isna(text)\<close> gives \<open>'Unknown'\<close>; a character \<open>c\<close> of the
  text between U+0600 and U+06FF (code points 1536 to 1791) gives \<open>'Arabic'\<close>; anything else
  \<open>'English'\<close>.
\<close>

definition detect_language :: "pystr option \<Rightarrow> string" where
  "detect_language text =
     (case text of
        None \<Rightarrow> ''Unknown''
      | Some s \<Rightarrow>
          if list_ex (\<lambda>c. 1536 \<le> c \<and> c \<le> 1791) s then ''Arabic'' else ''English'')"

text \<open>\<open>label_map = {-1: 'Negative', 0: 'Neutral', 1: 'Positive'}\<close>.\<close>

definition label_map :: "int \<rightharpoonup> string" where
  "label_map = [- 1 \<mapsto> ''Negative'', 0 \<mapsto> ''Neutral'', 1 \<mapsto> ''Positive'']"

text \<open>
  The three column assignments of \<open>load_data\<close>, row by row: \<open>apply(detect_language)\<close>,
  \<open>.str.len()\<close> (missing for a missing text) and \<open>.map(label_map)\<close> (missing for a key
  that the dictionary does not have).
\<close>

definition enrich :: "review \<Rightarrow> enriched" where
  "enrich r =
     \<lparr> review_content = review_content r,
       label = label r,
       language = detect_language (review_content r),
       length_col = map_option length (review_content r),
       sentiment_label = label_map (label r) \<rparr>"

text \<open>
  \<open>load_data\<close>: the argument is what \<open>pd.read_csv\<close> finds, \<open>None\<close> when the file does not
  exist (\<open>FileNotFoundError\<close>, answered by \<open>return None\<close>).
\<close>

definition load_data :: "review list option \<Rightarrow> enriched list option" where
  "load_data csv = (case csv of None \<Rightarrow> None | Some rows \<Rightarrow> Some (map enrich rows))"

section \<open>The regular-expression library behind \<open>str.contains\<close>\<close>

text \<open>
  \<open>Series.str.contains(pat, case=False, na=False)\<close> is called without \<open>regex=False\<close>, so
  pandas reads \<open>pat\<close> as a regular expression: it compiles \<open>pat\<close> once, with the flag
  \<open>IGNORECASE\<close>, before it looks at any row, and then asks for every text whether the
  compiled pattern is found somewhere in it. The library is not part of the repository; the
  filter takes it as a parameter: a function from the pattern to the exception that
  compiling raises, or to the predicate "the pattern is found in this text".
\<close>

type_synonym regex_lib = "pystr \<Rightarrow> error + (pystr \<Rightarrow> bool)"

text \<open>
  For running the filter on concrete inputs, \<open>py_re\<close> is Python's \<open>re\<close> on the patterns
  made of ordinary characters, \<open>.\<close> (any character but the newline), groups \<open>( )\<close> and
  alternation \<open>|\<close>. A pattern that uses one of the other special characters
  \<^verbatim>\<open>\ [ ] { } * + ? ^ $\<close>, or that opens more than eight groups (deep nesting ends in
  the interpreter's recursion limit), is handed to the parameter \<open>rest\<close>, which stands for
  the rest of the library. The parameter \<open>ieq p c\<close> says whether the pattern character \<open>p\<close> matches
  the text character \<open>c\<close> under \<open>IGNORECASE\<close> (the Unicode case tables).
\<close>

datatype rx = Lit nat | Dot | Eps | Seq rx rx | Alt rx rx

text \<open>
  A group being read: the alternatives closed by a \<open>|\<close> so far, and the sequence read
  since.
\<close>

type_synonym frame = "rx option \<times> rx"

fun alts :: "frame \<Rightarrow> rx" where
  "alts (None, s) = s"
| "alts (Some a, s) = Alt a s"

text \<open>
  The parser reads the pattern from left to right with the stack of the groups that are
  open. Code points: 40 and 41 are the parentheses, 124 is \<open>|\<close>, 46 is \<open>.\<close>. A \<open>)\<close> with no
  open group is the error "unbalanced parenthesis"; a group still open at the end is the
  error "missing ), unterminated subpattern".
\<close>

fun rx_parse :: "pystr \<Rightarrow> frame \<Rightarrow> frame list \<Rightarrow> error + rx" where
  "rx_parse [] cur stack = (if stack = [] then Inr (alts cur) else Inl ReError)"
| "rx_parse (c # cs) cur stack =
     (if c = 40 then rx_parse cs (None, Eps) (cur # stack)
      else if c = 41 then
        (case stack of
           [] \<Rightarrow> Inl ReError
         | (a, s) # st \<Rightarrow> rx_parse cs (a, Seq s (alts cur)) st)
      else if c = 124 then rx_parse cs (Some (alts cur), Eps) stack
      else if c = 46 then rx_parse cs (fst cur, Seq (snd cur) Dot) stack
      else rx_parse cs (fst cur, Seq (snd cur) (Lit c)) stack)"

text \<open>
  \<open>rx_ends ieq r s\<close>: what is left of \<open>s\<close> after each way of matching \<open>r\<close> at its start.
\<close>

fun rx_ends :: "(nat \<Rightarrow> nat \<Rightarrow> bool) \<Rightarrow> rx \<Rightarrow> pystr \<Rightarrow> pystr list" where
  "rx_ends ieq (Lit p) s = (case s of [] \<Rightarrow> [] | c # cs \<Rightarrow> if ieq p c then [cs] else [])"
| "rx_ends ieq Dot s = (case s of [] \<Rightarrow> [] | c # cs \<Rightarrow> if c = 10 then [] else [cs])"
| "rx_ends ieq Eps s = [s]"
| "rx_ends ieq (Seq a b) s = concat (map (rx_ends ieq b) (rx_ends ieq a s))"
| "rx_ends ieq (Alt a b) s = rx_ends ieq a s @ rx_ends ieq b s"

text \<open>\<open>pattern.search(s) is not None\<close>: the pattern matches at some position of \<open>s\<close>.\<close>

fun rx_search :: "(nat \<Rightarrow> nat \<Rightarrow> bool) \<Rightarrow> rx \<Rightarrow> pystr \<Rightarrow> bool" where
  "rx_search ieq r [] = (rx_ends ieq r [] \<noteq> [])"
| "rx_search ieq r (c # cs) = (if rx_ends ieq r (c # cs) \<noteq> [] then True else rx_search ieq r cs)"

definition unmodelled_special :: "nat \<Rightarrow> bool" where
  "unmodelled_special c = (c \<in> set [92, 91, 93, 123, 125, 42, 43, 63, 94, 36])"

definition py_re :: "(nat \<Rightarrow> nat \<Rightarrow> bool) \<Rightarrow> regex_lib \<Rightarrow> regex_lib" where
  "py_re ieq rest pat =
     (if list_ex unmodelled_special pat \<or> 8 < length (filter (\<lambda>c. c = 40) pat) then rest pat
      else (case rx_parse pat (None, Eps) [] of
              Inl e \<Rightarrow> Inl e
            | Inr r \<Rightarrow> Inr (rx_search ieq r)))"

section \<open>The filter (\<open>filtered_df\<close>)\<close>

text \<open>The three sidebar controls.\<close>

record selection =
  lang_filter :: string
  selected_sentiments :: "string list"
  search_query :: pystr

text \<open>The two data frames that the script holds.\<close>

record state =
  df :: "enriched list"
  filtered_df :: "enriched list"

text \<open>\<open>frame[mask]\<close>: the rows of the frame at which the boolean mask is true.\<close>

definition select_mask :: "'a list \<Rightarrow> bool list \<Rightarrow> 'a list" where
  "select_mask rows msk = map fst (filter snd (zip rows msk))"

text \<open>
  \<open>Series.isin(values)\<close> on the column of sentiment labels: a missing label is in no list
  of strings.
\<close>

definition isin :: "string option list \<Rightarrow> string list \<Rightarrow> bool list" where
  "isin col vals = map (\<lambda>v. case v of None \<Rightarrow> False | Some l \<Rightarrow> l \<in> set vals) col"

text \<open>
  \<open>Series.str.contains(pat, case=False, na=False)\<close>: the pattern is compiled first, then
  searched in every text; a missing text gives \<open>na\<close>, that is \<open>False\<close>.
\<close>

definition str_contains :: "regex_lib \<Rightarrow> pystr option list \<Rightarrow> pystr \<Rightarrow> error + bool list" where
  "str_contains re col pat =
     (case re pat of
        Inl e \<Rightarrow> Inl e
      | Inr found \<Rightarrow> Inr (map (\<lambda>v. case v of None \<Rightarrow> False | Some s \<Rightarrow> found s) col))"

text \<open>
  Lines 68 to 76 of \<open>app.py\<close>, statement by statement. The result is the exception raised,
  if any, and the state reached.
\<close>

definition apply_filters :: "regex_lib \<Rightarrow> selection \<Rightarrow> state \<Rightarrow> error option \<times> state" where
  "apply_filters re sel st =
     (let s1 = st\<lparr>filtered_df := df st\<rparr>;
          s2 = (if lang_filter sel \<noteq> ''All''
                then s1\<lparr>filtered_df :=
                       select_mask (filtered_df s1)
                         (map (\<lambda>r. language r = lang_filter sel) (filtered_df s1))\<rparr>
                else s1);
          s3 = s2\<lparr>filtered_df :=
                    select_mask (filtered_df s2)
                      (isin (map sentiment_label (filtered_df s2)) (selected_sentiments sel))\<rparr>
      in if search_query sel \<noteq> []
         then (case str_contains re (map review_content (filtered_df s3)) (search_query sel) of
                 Inl e \<Rightarrow> (Some e, s3)
               | Inr msk \<Rightarrow> (None, s3\<lparr>filtered_df := select_mask (filtered_df s3) msk\<rparr>))
         else (None, s3))"

text \<open>
  The Filter Engine: the filtered frame that lines 68 to 76 compute from an enriched table
  and a selection, or the exception.
\<close>

definition filter_engine :: "regex_lib \<Rightarrow> enriched list \<Rightarrow> selection \<Rightarrow> error + enriched list" where
  "filter_engine re table sel =
     (case apply_filters re sel \<lparr>df = table, filtered_df = []\<rparr> of
        (Some e, st) \<Rightarrow> Inl e
      | (None, st) \<Rightarrow> Inr (filtered_df st))"

section \<open>The aggregator (the four KPI cards)\<close>

text \<open>
  A Python float that may be NaN. Finite values are exact reals: the rounding of 64-bit
  floating point is not modelled.
\<close>

datatype number = NaN | Num real

text \<open>Python's \<open>/\<close>, which raises on a zero divisor.\<close>

definition py_div :: "real \<Rightarrow> real \<Rightarrow> error + real" where
  "py_div a b = (if b = 0 then Inl ZeroDivisionError else Inr (a / b))"

text \<open>
  \<open>Series.mean()\<close> skips the missing values; with no value left the mean is NaN.
\<close>

definition mean :: "nat option list \<Rightarrow> number" where
  "mean col =
     (let vs = concat (map (\<lambda>v. case v of None \<Rightarrow> [] | Some n \<Rightarrow> [n]) col)
      in if vs = [] then NaN else Num (real (sum_list vs) / real (length vs)))"

text \<open>
  \<open>len(frame[frame[col] == v]) / len(frame) * 100 if len(frame) > 0 else 0\<close>, the shape of
  \<open>positive_pct\<close> and \<open>arabic_pct\<close>; \<open>hit\<close> is the comparison.
\<close>

definition pct :: "('a \<Rightarrow> bool) \<Rightarrow> 'a list \<Rightarrow> error + real" where
  "pct hit frame =
     (if length frame > 0
      then (case py_div (real (length (select_mask frame (map hit frame))))
                        (real (length frame)) of
              Inl e \<Rightarrow> Inl e
            | Inr q \<Rightarrow> Inr (q * 100))
      else Inr 0)"

definition positive_pct :: "enriched list \<Rightarrow> error + real" where
  "positive_pct frame = pct (\<lambda>r. label r = 1) frame"

definition avg_len :: "enriched list \<Rightarrow> number" where
  "avg_len frame = (if length frame > 0 then mean (map length_col frame) else Num 0)"

definition arabic_pct :: "enriched list \<Rightarrow> error + real" where
  "arabic_pct frame = pct (\<lambda>r. language r = ''Arabic'') frame"

record kpis =
  total_count :: nat
  positive_percentage :: real
  average_length :: number
  arabic_percentage :: real

text \<open>The four values of the cards together.\<close>

definition aggregator :: "enriched list \<Rightarrow> error + kpis" where
  "aggregator frame =
     (case positive_pct frame of
        Inl e \<Rightarrow> Inl e
      | Inr p \<Rightarrow>
          (case arabic_pct frame of
             Inl e \<Rightarrow> Inl e
           | Inr a \<Rightarrow>
               Inr \<lparr> total_count = length frame, positive_percentage = p,
                     average_length = avg_len frame, arabic_percentage = a \<rparr>))"

text \<open>
  \<open>int(avg_len)\<close> in the third card: truncation towards zero, \<open>ValueError\<close> on NaN.
\<close>

definition py_int :: "number \<Rightarrow> error + int" where
  "py_int x =
     (case x of
        NaN \<Rightarrow> Inl ValueError
      | Num v \<Rightarrow> Inr (if 0 \<le> v then \<lfloor>v\<rfloor> else \<lceil>v\<rceil>))"

text \<open>
  Filtering, then the four values: the filtered frame and the aggregates, or the exception
  of the filter.
\<close>

definition pipeline ::
  "regex_lib \<Rightarrow> selection \<Rightarrow> state \<Rightarrow> error + (enriched list \<times> (error + kpis))" where
  "pipeline re sel st =
     (case apply_filters re sel st of
        (Some e, st') \<Rightarrow> Inl e
      | (None, st') \<Rightarrow> Inr (filtered_df st', aggregator (filtered_df st')))"

section \<open>Notions used in the statements\<close>

text \<open>
  The row conditions behind the masks of the filter: the sentiment label is one of the
  selected ones; the compiled pattern is found in the text of the row.
\<close>

definition keeps_sentiment :: "string list \<Rightarrow> enriched \<Rightarrow> bool" where
  "keeps_sentiment vals r =
     (case sentiment_label r of None \<Rightarrow> False | Some l \<Rightarrow> l \<in> set vals)"

definition finds :: "(pystr \<Rightarrow> bool) \<Rightarrow> enriched \<Rightarrow> bool" where
  "finds found r = (case review_content r of None \<Rightarrow> False | Some s \<Rightarrow> found s)"

text \<open>The frame after the language mask and the sentiment mask (line 73).\<close>

definition staged :: "selection \<Rightarrow> enriched list \<Rightarrow> enriched list" where
  "staged sel table =
     filter (keeps_sentiment (selected_sentiments sel))
       (if lang_filter sel \<noteq> ''All'' then filter (\<lambda>r. language r = lang_filter sel) table
        else table)"

text \<open>
  A character with no meaning of its own in a pattern, and what is left of a text after a
  pattern of such characters has been matched at its start.
\<close>

definition ordinary :: "nat \<Rightarrow> bool" where
  "ordinary c = (c \<notin> set [46, 40, 41, 124] \<and> \<not> unmodelled_special c)"

definition lit_ends :: "(nat \<Rightarrow> nat \<Rightarrow> bool) \<Rightarrow> pystr \<Rightarrow> pystr \<Rightarrow> pystr list" where
  "lit_ends ieq pat t =
     (if length pat \<le> length t \<and> list_all2 ieq pat (take (length pat) t)
      then [drop (length pat) t] else [])"

text \<open>
  A closed library for the examples: \<open>py_re\<close> with exact comparison of characters and
  nothing behind it. The examples use it with an empty search or with the pattern \<open>.\<close>
  only, which holds no letter and no character outside the modelled syntax.
\<close>

definition py_re_closed :: regex_lib where
  "py_re_closed = py_re (=) (\<lambda>pat. Inl ReError)"

section \<open>The filter as a composition of row conditions\<close>

lemma select_mask_map: "select_mask rows (map P rows) = filter P rows"
  unfolding select_mask_def by (induction rows) simp_all

lemma isin_sentiment:
  "isin (map sentiment_label rows) vals = map (keeps_sentiment vals) rows"
  by (simp add: isin_def keeps_sentiment_def)

lemma str_contains_content:
  "str_contains re (map review_content rows) pat =
     (case re pat of Inl e \<Rightarrow> Inl e | Inr found \<Rightarrow> Inr (map (finds found) rows))"
  by (simp add: str_contains_def finds_def split: sum.splits)

lemma apply_filters_eq:
  "apply_filters re sel st =
     (if search_query sel = [] then (None, st\<lparr>filtered_df := staged sel (df st)\<rparr>)
      else (case re (search_query sel) of
              Inl e \<Rightarrow> (Some e, st\<lparr>filtered_df := staged sel (df st)\<rparr>)
            | Inr found \<Rightarrow>
                (None, st\<lparr>filtered_df := filter (finds found) (staged sel (df st))\<rparr>)))"
  by (simp add: apply_filters_def Let_def select_mask_map isin_sentiment staged_def
      str_contains_content split: sum.splits)

lemma filter_engine_eq:
  "filter_engine re table sel =
     (if search_query sel = [] then Inr (staged sel table)
      else (case re (search_query sel) of
              Inl e \<Rightarrow> Inl e
            | Inr found \<Rightarrow> Inr (filter (finds found) (staged sel table))))"
  by (simp add: filter_engine_def apply_filters_eq split: sum.splits)

lemma staged_idem: "staged sel (staged sel table) = staged sel table"
  by (auto simp add: staged_def intro: filter_cong)

lemma staged_filter_commute: "staged sel (filter P table) = filter P (staged sel table)"
  by (auto simp add: staged_def intro: filter_cong)

lemma staged_subset: "set (staged sel table) \<subseteq> set table"
  by (auto simp add: staged_def)

lemma staged_sentiment: "r \<in> set (staged sel table) \<Longrightarrow> sentiment_label r \<noteq> None"
  by (auto simp add: staged_def keeps_sentiment_def split: if_splits option.splits)

lemma filter_engine_sentiment:
  "filter_engine re table sel = Inr s \<Longrightarrow> r \<in> set s \<Longrightarrow> sentiment_label r \<noteq> None"
  using staged_sentiment [of r sel table]
  by (auto simp add: filter_engine_eq split: if_splits sum.splits)

lemma label_map_None: "label_map l = None \<longleftrightarrow> l \<notin> {- 1, 0, 1}"
  by (simp add: label_map_def)

lemma pct_eq:
  "pct hit frame =
     Inr (if frame = [] then 0
          else real (length (filter hit frame)) / real (length frame) * 100)"
  by (simp add: pct_def py_div_def select_mask_map)

section \<open>Keyword patterns\<close>

text \<open>
  For a search text made of ordinary characters only, the compiled pattern is found in a
  text exactly when some stretch of the text matches the search text character by
  character under \<open>ieq\<close>: the search for a keyword is the case-insensitive substring test.
\<close>

lemma rx_parse_ordinary:
  "list_all ordinary pat \<Longrightarrow>
   rx_parse pat cur st = rx_parse [] (fst cur, foldl (\<lambda>s c. Seq s (Lit c)) (snd cur) pat) st"
proof (induction pat arbitrary: cur)
  case Nil
  then show ?case by simp
next
  case (Cons c cs)
  from Cons.prems have "ordinary c" and cs: "list_all ordinary cs"
    by simp_all
  then have c: "c \<noteq> 40" "c \<noteq> 41" "c \<noteq> 124" "c \<noteq> 46"
    by (auto simp add: ordinary_def)
  have "rx_parse (c # cs) cur st = rx_parse cs (fst cur, Seq (snd cur) (Lit c)) st"
    using c by simp
  also have "\<dots> = rx_parse [] (fst cur, foldl (\<lambda>s c. Seq s (Lit c)) (Seq (snd cur) (Lit c)) cs) st"
    using Cons.IH [OF cs, of "(fst cur, Seq (snd cur) (Lit c))"] by simp
  finally show ?case by simp
qed

lemma lit_ends_Nil: "lit_ends ieq [] t = [t]"
  by (simp add: lit_ends_def)

lemma lit_ends_Cons:
  "concat (map (lit_ends ieq cs) (rx_ends ieq (Lit c) u)) = lit_ends ieq (c # cs) u"
  by (cases u) (auto simp add: lit_ends_def)

lemma rx_ends_foldl:
  "rx_ends ieq (foldl (\<lambda>s c. Seq s (Lit c)) s pat) t =
     concat (map (lit_ends ieq pat) (rx_ends ieq s t))"
proof (induction pat arbitrary: s)
  case Nil
  show ?case by (simp add: lit_ends_Nil)
next
  case (Cons c cs)
  have "concat (map (lit_ends ieq cs) (concat (map (rx_ends ieq (Lit c)) xs))) =
        concat (map (lit_ends ieq (c # cs)) xs)" for xs
    by (induction xs) (simp_all add: lit_ends_Cons del: rx_ends.simps)
  then show ?case
    using Cons.IH [of "Seq s (Lit c)"] by simp
qed

lemma rx_search_iff:
  "rx_search ieq r s \<longleftrightarrow> (\<exists>u v. s = u @ v \<and> rx_ends ieq r v \<noteq> [])"
proof (induction s)
  case Nil
  show ?case by simp
next
  case (Cons c cs)
  have "(\<exists>u v. c # cs = u @ v \<and> rx_ends ieq r v \<noteq> []) \<longleftrightarrow>
        rx_ends ieq r (c # cs) \<noteq> [] \<or> (\<exists>u v. cs = u @ v \<and> rx_ends ieq r v \<noteq> [])"
    by (auto simp add: Cons_eq_append_conv)
  with Cons.IH show ?case by auto
qed

lemma lit_ends_iff:
  "lit_ends ieq pat t \<noteq> [] \<longleftrightarrow> (\<exists>w v. t = w @ v \<and> list_all2 ieq pat w)"
proof
  assume "lit_ends ieq pat t \<noteq> []"
  then have "length pat \<le> length t" and "list_all2 ieq pat (take (length pat) t)"
    by (auto simp add: lit_ends_def split: if_splits)
  then have "t = take (length pat) t @ drop (length pat) t \<and>
      list_all2 ieq pat (take (length pat) t)"
    by simp
  then show "\<exists>w v. t = w @ v \<and> list_all2 ieq pat w" by blast
next
  assume "\<exists>w v. t = w @ v \<and> list_all2 ieq pat w"
  then obtain w v where t: "t = w @ v" and w: "list_all2 ieq pat w" by blast
  from w have "length pat = length w" by (rule list_all2_lengthD)
  with t w show "lit_ends ieq pat t \<noteq> []" by (simp add: lit_ends_def)
qed

lemma py_re_keyword:
  assumes "list_all ordinary q"
  shows "\<exists>found. py_re ieq rest q = Inr found \<and>
           (\<forall>s. found s \<longleftrightarrow> (\<exists>u w v. s = u @ w @ v \<and> list_all2 ieq q w))"
proof -
  have "\<not> list_ex unmodelled_special q" and "filter (\<lambda>c. c = 40) q = []"
    using assms by (auto simp add: list_ex_iff list_all_iff ordinary_def filter_empty_conv)
  then have "py_re ieq rest q = Inr (rx_search ieq (foldl (\<lambda>s c. Seq s (Lit c)) Eps q))"
    using rx_parse_ordinary [OF assms, of "(None, Eps)" "[]"] by (simp add: py_re_def)
  moreover have "rx_search ieq (foldl (\<lambda>s c. Seq s (Lit c)) Eps q) s \<longleftrightarrow>
      (\<exists>u w v. s = u @ w @ v \<and> list_all2 ieq q w)" for s
    using lit_ends_iff [of ieq q] by (simp add: rx_search_iff rx_ends_foldl) blast
  ultimately show ?thesis by blast
qed

lemma keyword_search_is_substring_test:
  assumes "list_all ordinary q" and "q \<noteq> []"
  shows "\<exists>found. filter_engine (py_re ieq rest) table (sel\<lparr>search_query := q\<rparr>) =
             Inr (filter (finds found) (staged sel table)) \<and>
           (\<forall>s. found s \<longleftrightarrow> (\<exists>u w v. s = u @ w @ v \<and> list_all2 ieq q w))"
proof -
  obtain found where "py_re ieq rest q = Inr found"
    and "\<forall>s. found s \<longleftrightarrow> (\<exists>u w v. s = u @ w @ v \<and> list_all2 ieq q w)"
    using py_re_keyword [OF assms(1)] by blast
  moreover have "staged (sel\<lparr>search_query := q\<rparr>) table = staged sel table"
    by (simp add: staged_def)
  ultimately show ?thesis
    using assms(2) by (auto simp add: filter_engine_eq)
qed

text \<open>
  With no sentiment selected the filtered frame is empty whenever the filter returns,
  that is whenever the search is empty or its pattern compiles.
\<close>

lemma empty_sentiments_empty_result:
  "selected_sentiments sel = [] \<Longrightarrow>
   search_query sel = [] \<or> re (search_query sel) = Inr found \<Longrightarrow>
   filter_engine re table sel = Inr []"
  by (auto simp add: filter_engine_eq staged_def keeps_sentiment_def split: option.splits)

text \<open>
  On a frame in which a length is defined, \<open>avg_len\<close> is the arithmetic mean of the defined
  lengths.
\<close>

lemma avg_len_defined:
  assumes "vs = concat (map (\<lambda>r. case length_col r of None \<Rightarrow> [] | Some n \<Rightarrow> [n]) frame)"
    and "vs \<noteq> []"
  shows "avg_len frame = Num (real (sum_list vs) / real (length vs))"
proof -
  from assms have "frame \<noteq> []" by auto
  then show ?thesis
    using assms by (simp add: avg_len_def mean_def Let_def comp_def)
qed


section \<open>The claims\<close>

subsection \<open>Language Classifier\<close>

text \<open>
  C4. A missing text is classified \<open>'Unknown'\<close>; a text with at least one character whose
  code point lies between U+0600 and U+06FF (1536 to 1791) is classified \<open>'Arabic'\<close>; every
  other text is classified \<open>'English'\<close>.
\<close>

theorem detect_language_classifies:
  "detect_language None = ''Unknown'' \<and>
   detect_language (Some s) =
     (if \<exists>c \<in> set s. 1536 \<le> c \<and> c \<le> 1791 then ''Arabic'' else ''English'')"
  by (simp add: detect_language_def list_ex_iff)

subsection \<open>Search\<close>

text \<open>
  C1. The search text is not compared as a substring: it is compiled as a regular
  expression. With the search text \<open>.\<close> the row whose text is \<open>abc\<close> is accepted, although
  no character of \<open>abc\<close> is a dot (code point 46); with the search text \<open>(\<close> the filter
  raises on every table and for every other choice of the selection.
\<close>

theorem search_query_is_a_pattern:
  "filter_engine (py_re ieq rest)
     [enrich \<lparr>review_content = Some [97, 98, 99], label = 1\<rparr>]
     \<lparr>lang_filter = ''All'', selected_sentiments = [''Positive'', ''Neutral'', ''Negative''],
      search_query = [46]\<rparr>
   = Inr [enrich \<lparr>review_content = Some [97, 98, 99], label = 1\<rparr>]
   \<and> 46 \<notin> set [97, 98, 99 :: nat]
   \<and> filter_engine (py_re ieq rest) table
       \<lparr>lang_filter = l, selected_sentiments = vals, search_query = [40]\<rparr>
     = Inl ReError"
  by (simp add: filter_engine_eq py_re_def unmodelled_special_def staged_def keeps_sentiment_def
      finds_def enrich_def label_map_def)

subsection \<open>Average length\<close>

text \<open>
  C2. On a filtered frame that is not empty and in which no length is defined,
  \<open>avg_len\<close> is NaN, not 0, and the card that shows it raises \<open>ValueError\<close>. The table has
  one review with a text and one neutral review without; the selection keeps the neutral
  reviews of every language and searches for nothing.
\<close>

theorem avg_len_all_missing_is_nan:
  "filter_engine re
     (map enrich [\<lparr>review_content = Some [79, 107], label = 1\<rparr>,
                  \<lparr>review_content = None, label = 0\<rparr>])
     \<lparr>lang_filter = ''All'', selected_sentiments = [''Neutral''], search_query = []\<rparr>
   = Inr [enrich \<lparr>review_content = None, label = 0\<rparr>]
   \<and> avg_len [enrich \<lparr>review_content = None, label = 0\<rparr>] = NaN
   \<and> py_int (avg_len [enrich \<lparr>review_content = None, label = 0\<rparr>]) = Inl ValueError"
  by (simp add: filter_engine_eq staged_def keeps_sentiment_def enrich_def label_map_def
      avg_len_def mean_def py_int_def)

subsection \<open>The default selection\<close>

text \<open>
  C3, as amended. With the language "All", the three sentiments selected and an empty
  search, the filter returns exactly the rows whose label is -1, 0 or 1, in the order of
  the table; it returns the whole table when every label is -1, 0 or 1.
\<close>

theorem default_selection_keeps_labelled_rows:
  "filter_engine re (map enrich rows)
     \<lparr>lang_filter = ''All'', selected_sentiments = [''Positive'', ''Neutral'', ''Negative''],
      search_query = []\<rparr>
   = Inr (map enrich (filter (\<lambda>r. label r \<in> {- 1, 0, 1}) rows))
   \<and> ((\<forall>r \<in> set rows. label r \<in> {- 1, 0, 1}) \<longrightarrow>
      filter_engine re (map enrich rows)
        \<lparr>lang_filter = ''All'', selected_sentiments = [''Positive'', ''Neutral'', ''Negative''],
         search_query = []\<rparr>
      = Inr (map enrich rows))"
proof -
  have keep: "keeps_sentiment [''Positive'', ''Neutral'', ''Negative''] (enrich r)
      \<longleftrightarrow> label r \<in> {- 1, 0, 1}" for r
    by (simp add: keeps_sentiment_def enrich_def label_map_def)
  have "filter_engine re (map enrich rows)
     \<lparr>lang_filter = ''All'', selected_sentiments = [''Positive'', ''Neutral'', ''Negative''],
      search_query = []\<rparr>
   = Inr (map enrich (filter (\<lambda>r. label r \<in> {- 1, 0, 1}) rows))"
    by (simp add: filter_engine_eq staged_def filter_map comp_def keep)
  moreover have "(\<forall>r \<in> set rows. label r \<in> {- 1, 0, 1}) \<longrightarrow>
      filter (\<lambda>r. label r \<in> {- 1, 0, 1}) rows = rows"
    by (simp add: filter_id_conv)
  ultimately show ?thesis by auto
qed

text \<open>
  The amended statement at a table of three well-labelled rows, one of them without a
  text: all three are returned.
\<close>

theorem default_selection_keeps_labelled_rows_witness:
  "list_all (\<lambda>r. label r \<in> {- 1, 0, 1})
     [\<lparr>review_content = Some [79, 107], label = 1\<rparr>,
      \<lparr>review_content = None, label = 0\<rparr>,
      \<lparr>review_content = Some [1582], label = - 1\<rparr>]
   \<and> filter_engine py_re_closed
       (map enrich [\<lparr>review_content = Some [79, 107], label = 1\<rparr>,
                    \<lparr>review_content = None, label = 0\<rparr>,
                    \<lparr>review_content = Some [1582], label = - 1\<rparr>])
       \<lparr>lang_filter = ''All'', selected_sentiments = [''Positive'', ''Neutral'', ''Negative''],
        search_query = []\<rparr>
     = Inr (map enrich [\<lparr>review_content = Some [79, 107], label = 1\<rparr>,
                        \<lparr>review_content = None, label = 0\<rparr>,
                        \<lparr>review_content = Some [1582], label = - 1\<rparr>])"
proof -
  have h: "\<forall>r \<in> set [\<lparr>review_content = Some [79, 107], label = 1\<rparr>,
               \<lparr>review_content = None, label = 0\<rparr>,
               \<lparr>review_content = Some [1582], label = - 1\<rparr>]. label r \<in> {- 1, 0, 1}"
    by simp
  from h default_selection_keeps_labelled_rows
      [of py_re_closed "[\<lparr>review_content = Some [79, 107], label = 1\<rparr>,
               \<lparr>review_content = None, label = 0\<rparr>,
               \<lparr>review_content = Some [1582], label = - 1\<rparr>]"]
  have "filter_engine py_re_closed
       (map enrich [\<lparr>review_content = Some [79, 107], label = 1\<rparr>,
                    \<lparr>review_content = None, label = 0\<rparr>,
                    \<lparr>review_content = Some [1582], label = - 1\<rparr>])
       \<lparr>lang_filter = ''All'', selected_sentiments = [''Positive'', ''Neutral'', ''Negative''],
        search_query = []\<rparr>
     = Inr (map enrich [\<lparr>review_content = Some [79, 107], label = 1\<rparr>,
                        \<lparr>review_content = None, label = 0\<rparr>,
                        \<lparr>review_content = Some [1582], label = - 1\<rparr>])"
    by blast
  then show ?thesis by simp
qed

text \<open>
  The claim as stated fails at a table whose only row has the label 2: the row is in the
  table and the default selection returns nothing.
\<close>

theorem default_selection_drops_unlabelled_row:
  "filter_engine py_re_closed
     [enrich \<lparr>review_content = Some [79, 107], label = 2\<rparr>]
     \<lparr>lang_filter = ''All'', selected_sentiments = [''Positive'', ''Neutral'', ''Negative''],
      search_query = []\<rparr>
   = Inr []
   \<and> enrich \<lparr>review_content = Some [79, 107], label = 2\<rparr>
       \<in> set [enrich \<lparr>review_content = Some [79, 107], label = 2\<rparr>]"
  by (simp add: filter_engine_eq staged_def keeps_sentiment_def enrich_def label_map_def)

subsection \<open>The empty sentiment set\<close>

text \<open>
  C5. With no sentiment selected and the search text \<open>(\<close>, the filter does not return the
  empty subset: it raises, on every table and for every language choice.
\<close>

theorem empty_sentiments_bad_pattern_raises:
  "filter_engine (py_re ieq rest) table
     \<lparr>lang_filter = l, selected_sentiments = [], search_query = [40]\<rparr> = Inl ReError"
  by (simp add: filter_engine_eq py_re_def unmodelled_special_def)

subsection \<open>The aggregator\<close>

text \<open>
  C6. On the empty frame the aggregator returns 0 for the total, for both percentages and
  for the average length. On every frame it returns its four values and raises nothing, so
  never \<open>ZeroDivisionError\<close>: a quotient is formed only for a frame that is not empty.
\<close>

theorem aggregator_never_divides_by_zero:
  "aggregator [] =
     Inr \<lparr>total_count = 0, positive_percentage = 0, average_length = Num 0,
          arabic_percentage = 0\<rparr>
   \<and> aggregator frame =
     Inr \<lparr>total_count = length frame,
          positive_percentage =
            (if frame = [] then 0
             else real (length (filter (\<lambda>r. label r = 1) frame)) / real (length frame) * 100),
          average_length = avg_len frame,
          arabic_percentage =
            (if frame = [] then 0
             else real (length (filter (\<lambda>r. language r = ''Arabic'') frame))
                    / real (length frame) * 100)\<rparr>
   \<and> aggregator frame \<noteq> Inl ZeroDivisionError"
  by (simp add: aggregator_def positive_pct_def arabic_pct_def pct_eq avg_len_def)

subsection \<open>Idempotence\<close>

text \<open>
  C7. Filtering the subset that the filter has just returned, with the same selection,
  returns that subset again.
\<close>

theorem filter_engine_idempotent:
  "filter_engine re table sel = Inr s \<Longrightarrow> filter_engine re s sel = Inr s"
  by (auto simp add: filter_engine_eq staged_idem staged_filter_commute
      split: if_splits sum.splits)

text \<open>
  Idempotence at a table of three rows, with the language "English", the sentiments
  Positive and Neutral and the search text \<open>.\<close>: one row is returned, twice.
\<close>

theorem filter_engine_idempotent_witness:
  "filter_engine py_re_closed
     (map enrich [\<lparr>review_content = Some [79, 107], label = 1\<rparr>,
                  \<lparr>review_content = None, label = 0\<rparr>,
                  \<lparr>review_content = Some [1582], label = 1\<rparr>])
     \<lparr>lang_filter = ''English'', selected_sentiments = [''Positive'', ''Neutral''],
      search_query = [46]\<rparr>
   = Inr [enrich \<lparr>review_content = Some [79, 107], label = 1\<rparr>]
   \<and> filter_engine py_re_closed
       [enrich \<lparr>review_content = Some [79, 107], label = 1\<rparr>]
       \<lparr>lang_filter = ''English'', selected_sentiments = [''Positive'', ''Neutral''],
        search_query = [46]\<rparr>
     = Inr [enrich \<lparr>review_content = Some [79, 107], label = 1\<rparr>]"
proof -
  have h: "filter_engine py_re_closed
     (map enrich [\<lparr>review_content = Some [79, 107], label = 1\<rparr>,
                  \<lparr>review_content = None, label = 0\<rparr>,
                  \<lparr>review_content = Some [1582], label = 1\<rparr>])
     \<lparr>lang_filter = ''English'', selected_sentiments = [''Positive'', ''Neutral''],
      search_query = [46]\<rparr>
   = Inr [enrich \<lparr>review_content = Some [79, 107], label = 1\<rparr>]"
    by (simp add: filter_engine_eq py_re_closed_def py_re_def unmodelled_special_def staged_def
        keeps_sentiment_def finds_def enrich_def label_map_def detect_language_def)
  show ?thesis
    using h filter_engine_idempotent [OF h] by simp
qed

subsection \<open>Labels outside -1, 0, 1\<close>

text \<open>
  C8. A row whose label is not -1, 0 or 1 gets no sentiment label, and it is in no subset
  that the filter returns, whatever the table, the library and the selection, the
  selection of all three sentiments included.
\<close>

theorem malformed_label_excluded:
  "label r \<notin> {- 1, 0, 1} \<Longrightarrow>
   sentiment_label (enrich r) = None \<and>
   (\<forall>re table l vals q s.
      filter_engine re table
        \<lparr>lang_filter = l, selected_sentiments = vals, search_query = q\<rparr> = Inr s
      \<longrightarrow> enrich r \<notin> set s)"
proof -
  assume "label r \<notin> {- 1, 0, 1}"
  then have "sentiment_label (enrich r) = None"
    by (simp add: enrich_def label_map_None)
  then show ?thesis
    using filter_engine_sentiment by blast
qed

text \<open>
  A row with the label 5 beside a row with the label 1, all three sentiments selected: the
  filter returns the second row only.
\<close>

theorem malformed_label_excluded_witness:
  "label \<lparr>review_content = Some [79, 107], label = 5\<rparr> \<notin> {- 1, 0, 1}
   \<and> sentiment_label (enrich \<lparr>review_content = Some [79, 107], label = 5\<rparr>) = None
   \<and> filter_engine py_re_closed
       (map enrich [\<lparr>review_content = Some [79, 107], label = 5\<rparr>,
                    \<lparr>review_content = Some [79, 107], label = 1\<rparr>])
       \<lparr>lang_filter = ''All'', selected_sentiments = [''Positive'', ''Neutral'', ''Negative''],
        search_query = []\<rparr>
     = Inr [enrich \<lparr>review_content = Some [79, 107], label = 1\<rparr>]
   \<and> enrich \<lparr>review_content = Some [79, 107], label = 5\<rparr>
       \<notin> set [enrich \<lparr>review_content = Some [79, 107], label = 1\<rparr>]"
proof -
  have h: "label \<lparr>review_content = Some [79, 107], label = 5\<rparr> \<notin> {- 1, 0, 1}"
    by simp
  have run: "filter_engine py_re_closed
       (map enrich [\<lparr>review_content = Some [79, 107], label = 5\<rparr>,
                    \<lparr>review_content = Some [79, 107], label = 1\<rparr>])
       \<lparr>lang_filter = ''All'', selected_sentiments = [''Positive'', ''Neutral'', ''Negative''],
        search_query = []\<rparr>
     = Inr [enrich \<lparr>review_content = Some [79, 107], label = 1\<rparr>]"
    by (simp add: filter_engine_eq staged_def keeps_sentiment_def enrich_def label_map_def)
  from malformed_label_excluded [OF h] run
  have "sentiment_label (enrich \<lparr>review_content = Some [79, 107], label = 5\<rparr>) = None"
    and "enrich \<lparr>review_content = Some [79, 107], label = 5\<rparr>
       \<notin> set [enrich \<lparr>review_content = Some [79, 107], label = 1\<rparr>]"
    by blast+
  with h run show ?thesis by blast
qed

subsection \<open>Frame condition\<close>

text \<open>
  C9. Running the filter statements leaves the enriched table \<open>df\<close> as it was, whether they
  finish or raise; what they produce is in \<open>filtered_df\<close> and holds rows of \<open>df\<close> only.
\<close>

theorem apply_filters_keeps_df:
  "df (snd (apply_filters re sel st)) = df st \<and>
   set (filtered_df (snd (apply_filters re sel st))) \<subseteq> set (df st)"
  using staged_subset [of sel "df st"]
  by (auto simp add: apply_filters_eq split: sum.splits)

subsection \<open>Determinism\<close>

text \<open>
  C10. The filtered subset and the four aggregates are determined by the enriched table
  and the selection: two states that hold the same table give the same result, whatever
  else they hold.
\<close>

theorem pipeline_deterministic:
  "df st = df st' \<Longrightarrow> pipeline re sel st = pipeline re sel st'"
  by (simp add: pipeline_def apply_filters_eq split: sum.splits)

text \<open>
  Two states with the same table of two rows and different earlier contents of
  \<open>filtered_df\<close>: the same subset and the same aggregates.
\<close>

theorem pipeline_deterministic_witness:
  "pipeline py_re_closed
     \<lparr>lang_filter = ''All'', selected_sentiments = [''Positive''], search_query = [46]\<rparr>
     \<lparr>df = map enrich [\<lparr>review_content = Some [79, 107], label = 1\<rparr>,
                        \<lparr>review_content = None, label = 0\<rparr>],
      filtered_df = []\<rparr>
   = pipeline py_re_closed
     \<lparr>lang_filter = ''All'', selected_sentiments = [''Positive''], search_query = [46]\<rparr>
     \<lparr>df = map enrich [\<lparr>review_content = Some [79, 107], label = 1\<rparr>,
                        \<lparr>review_content = None, label = 0\<rparr>],
      filtered_df = [enrich \<lparr>review_content = None, label = 0\<rparr>]\<rparr>"
  using pipeline_deterministic
    [of "\<lparr>df = map enrich [\<lparr>review_content = Some [79, 107], label = 1\<rparr>,
                        \<lparr>review_content = None, label = 0\<rparr>],
      filtered_df = []\<rparr>"
       "\<lparr>df = map enrich [\<lparr>review_content = Some [79, 107], label = 1\<rparr>,
                        \<lparr>review_content = None, label = 0\<rparr>],
      filtered_df = [enrich \<lparr>review_content = None, label = 0\<rparr>]\<rparr>"
       py_re_closed
       "\<lparr>lang_filter = ''All'', selected_sentiments = [''Positive''], search_query = [46]\<rparr>"]
  by simp

end
